theory Spec2Isabelle
  imports Complex_Main "HOL-Library.Char_ord" "HOL-Library.List_Lexorder" "HOL-Library.Multiset"
begin

section \<open>Values of the player table\<close>

text \<open>
  A cell handed to \<^verbatim>\<open>height_to_inches\<close> is \<^verbatim>\<open>None\<close>, a Python \<^verbatim>\<open>int\<close>, a Python
  \<^verbatim>\<open>float\<close> or a \<^verbatim>\<open>str\<close>. A float is either NaN or a number; the number is kept as
  the real it denotes (the function only passes it on, and the statistics below are taken in
  exact arithmetic). Infinities are not part of the model. A string is a list of code points
  below 256.
\<close>

datatype pyfloat = NaN | Fin real

datatype pyval = PyNone | PyInt int | PyFloat pyfloat | PyStr string

datatype exn = ValueError

text \<open>\<^verbatim>\<open>pd.isna(h)\<close> on a scalar: true of \<^verbatim>\<open>None\<close> and of the float NaN.\<close>

definition isna :: "pyval \<Rightarrow> bool" where
  "isna h = (case h of PyNone \<Rightarrow> True | PyFloat NaN \<Rightarrow> True | _ \<Rightarrow> False)"

text \<open>\<^verbatim>\<open>isinstance(h, (int, float))\<close>.\<close>

definition is_number :: "pyval \<Rightarrow> bool" where
  "is_number h = (case h of PyInt _ \<Rightarrow> True | PyFloat _ \<Rightarrow> True | _ \<Rightarrow> False)"

section \<open>String operations used by the normalizer\<close>

text \<open>\<^verbatim>\<open>h.split(sep)\<close> for a one-character separator: one more part than separators.\<close>

fun py_split :: "char \<Rightarrow> string \<Rightarrow> string list" where
  "py_split sep [] = [[]]"
| "py_split sep (c # cs) =
     (if c = sep then [] # py_split sep cs
      else (case py_split sep cs of [] \<Rightarrow> [[c]] | p # ps \<Rightarrow> (c # p) # ps))"

text \<open>The destructuring \<^verbatim>\<open>feet, inches = ...\<close>: anything but two parts raises ValueError.\<close>

fun unpack2 :: "string list \<Rightarrow> exn + string \<times> string" where
  "unpack2 [a, b] = Inr (a, b)"
| "unpack2 _ = Inl ValueError"

text \<open>
  \<^verbatim>\<open>int(s)\<close> on a string, base 10: white space is stripped at both ends, one sign may
  lead, and the rest is groups of decimal digits joined by single underscores. The white
  space below 256 is TAB, LF, VT, FF, CR, SPACE, NEL (133) and NBSP (160). Python's integers
  are unbounded; the limit that some interpreters put on the number of digits of a literal
  is a setting of the interpreter and is not modelled.
\<close>

definition is_space :: "char \<Rightarrow> bool" where
  "is_space c = ((of_char c :: nat) \<in> {9, 10, 11, 12, 13, 32, 133, 160})"

definition strip :: "string \<Rightarrow> string" where
  "strip s = rev (dropWhile is_space (rev (dropWhile is_space s)))"

definition is_digit :: "char \<Rightarrow> bool" where
  "is_digit c = (48 \<le> (of_char c :: nat) \<and> (of_char c :: nat) \<le> 57)"

definition digit_val :: "char \<Rightarrow> int" where
  "digit_val c = int (of_char c) - 48"

definition digits_ok :: "string \<Rightarrow> bool" where
  "digits_ok body = list_all (\<lambda>p. p \<noteq> [] \<and> list_all is_digit p) (py_split CHR ''_'' body)"

definition digits_value :: "string \<Rightarrow> int" where
  "digits_value body = foldl (\<lambda>a c. 10 * a + digit_val c) 0 (filter (\<lambda>c. c \<noteq> CHR ''_'') body)"

definition parse_digits :: "string \<Rightarrow> exn + int" where
  "parse_digits body = (if digits_ok body then Inr (digits_value body) else Inl ValueError)"

definition py_int :: "string \<Rightarrow> exn + int" where
  "py_int s =
     (case strip s of
        [] \<Rightarrow> Inl ValueError
      | c # r \<Rightarrow>
          if c = CHR ''-'' then (case parse_digits r of Inl e \<Rightarrow> Inl e | Inr v \<Rightarrow> Inr (- v))
          else if c = CHR ''+'' then parse_digits r
          else parse_digits (c # r))"

section \<open>The height normalizer\<close>

text \<open>
  The body of the \<^verbatim>\<open>try\<close> block: split at the separator, destructure into two parts,
  parse \<^verbatim>\<open>feet\<close> then \<^verbatim>\<open>inches\<close>. Each step can raise.
\<close>

definition feet_inches :: "string \<Rightarrow> exn + int" where
  "feet_inches h =
     (case unpack2 (py_split CHR ''-'' h) of
        Inl e \<Rightarrow> Inl e
      | Inr (feet, inches) \<Rightarrow>
          (case py_int feet of
             Inl e \<Rightarrow> Inl e
           | Inr f \<Rightarrow> (case py_int inches of Inl e \<Rightarrow> Inl e | Inr i \<Rightarrow> Inr (f * 12 + i))))"

text \<open>
  \<^verbatim>\<open>height_to_inches\<close>, test by test in the order of the source; \<^verbatim>\<open>except Exception\<close>
  turns every raise of the body into \<^verbatim>\<open>None\<close>. Only a string passes the first two tests
  (lemma \<open>neither_is_str\<close>), so the last branch of the case is never taken.
\<close>

definition height_to_inches :: "pyval \<Rightarrow> pyval" where
  "height_to_inches h =
     (if isna h then PyNone
      else if is_number h then h
      else (case h of
              PyStr s \<Rightarrow>
                if CHR ''-'' \<notin> set s then PyNone
                else (case feet_inches s of Inl e \<Rightarrow> PyNone | Inr v \<Rightarrow> PyInt v)
            | _ \<Rightarrow> PyNone))"




section \<open>The player table and the aggregation pipeline\<close>

text \<open>
  A row of \<^verbatim>\<open>df_players\<close>, with the columns the height and weight charts read. A cell of
  \<^verbatim>\<open>position\<close> that is empty in the file is read as missing (\<open>None\<close>).
\<close>

record player =
  height :: pyval
  weight :: pyval
  position :: "string option"

type_synonym table = "player list"

text \<open>\<^verbatim>\<open>df_players["height_in"] = df_players["height"].apply(height_to_inches)\<close>.\<close>

definition height_in :: "table \<Rightarrow> pyval list" where
  "height_in df_players = map (\<lambda>r. height_to_inches (height r)) df_players"

text \<open>
  The number held by a cell that \<^verbatim>\<open>dropna\<close> keeps; \<open>None\<close> for a cell it drops. No string
  reaches it: \<open>height_to_inches\<close> returns none (lemma \<open>height_to_inches_not_str\<close>).
\<close>

definition notna_value :: "pyval \<Rightarrow> real option" where
  "notna_value v =
     (case v of PyInt n \<Rightarrow> Some (real_of_int n) | PyFloat (Fin x) \<Rightarrow> Some x | _ \<Rightarrow> None)"

text \<open>\<^verbatim>\<open>heights = df_players["height_in"].dropna()\<close>.\<close>

definition heights :: "table \<Rightarrow> real list" where
  "heights df_players = List.map_filter notna_value (height_in df_players)"

text \<open>
  The statistics of a series of numbers, as pandas gives them: NaN for the mean, minimum and
  maximum of an empty series, and for the sample standard deviation (one degree of freedom
  removed) of fewer than two values.
\<close>

definition mean :: "real list \<Rightarrow> pyfloat" where
  "mean xs = (if xs = [] then NaN else Fin (sum_list xs / real (length xs)))"

definition std :: "real list \<Rightarrow> pyfloat" where
  "std xs =
     (if length xs < 2 then NaN
      else Fin (sqrt (sum_list (map (\<lambda>x. (x - sum_list xs / real (length xs))\<^sup>2) xs)
                       / real (length xs - 1))))"

definition min_series :: "real list \<Rightarrow> pyfloat" where
  "min_series xs = (case xs of [] \<Rightarrow> NaN | x # r \<Rightarrow> Fin (fold min r x))"

definition max_series :: "real list \<Rightarrow> pyfloat" where
  "max_series xs = (case xs of [] \<Rightarrow> NaN | x # r \<Rightarrow> Fin (fold max r x))"

text \<open>
  \<^verbatim>\<open>df_players.dropna(subset=[col])\<close> followed by the selection of the \<^verbatim>\<open>position\<close> key and
  of the column: the rows whose value is present, each as (position, value).
\<close>

definition dropna_subset :: "(player \<Rightarrow> real option) \<Rightarrow> table \<Rightarrow> (string option \<times> real) list" where
  "dropna_subset col df_players =
     List.map_filter (\<lambda>r. map_option (\<lambda>x. (position r, x)) (col r)) df_players"

text \<open>
  \<^verbatim>\<open>.groupby('position')\<close> with its defaults: rows with a missing key are left out, and the
  groups come in ascending order of their labels.
\<close>

definition group_keys :: "(string option \<times> real) list \<Rightarrow> string list" where
  "group_keys rows = sort (remdups (List.map_filter fst rows))"

definition group_values :: "string \<Rightarrow> (string option \<times> real) list \<Rightarrow> real list" where
  "group_values k rows = map snd (filter (\<lambda>r. fst r = Some k) rows)"

definition groupby :: "(string option \<times> real) list \<Rightarrow> (string \<times> real list) list" where
  "groupby rows = map (\<lambda>k. (k, group_values k rows)) (group_keys rows)"

text \<open>\<^verbatim>\<open>.agg(['mean', 'std'])\<close>: one record per group.\<close>

record agg_row =
  pos :: string
  mean_col :: pyfloat
  std_col :: pyfloat

definition agg_mean_std :: "(string \<times> real list) list \<Rightarrow> agg_row list" where
  "agg_mean_std groups =
     map (\<lambda>(k, vs). \<lparr>pos = k, mean_col = mean vs, std_col = std vs\<rparr>) groups"

text \<open>
  \<^verbatim>\<open>.sort_values('mean', ascending=False)\<close>: the rows with a mean, reversed, sorted in
  ascending order and reversed again, then the rows whose mean is NaN. The sort keeps rows
  of equal mean in the order it finds them.
\<close>

definition fin_value :: "pyfloat \<Rightarrow> real" where
  "fin_value v = (case v of Fin x \<Rightarrow> x | NaN \<Rightarrow> 0)"

definition sort_values_mean_desc :: "agg_row list \<Rightarrow> agg_row list" where
  "sort_values_mean_desc rows =
     rev (sort_key (\<lambda>r. fin_value (mean_col r)) (rev (filter (\<lambda>r. mean_col r \<noteq> NaN) rows)))
     @ filter (\<lambda>r. mean_col r = NaN) rows"

text \<open>\<^verbatim>\<open>height_by_pos['std'] = height_by_pos['std'].fillna(0)\<close>.\<close>

definition fillna0 :: "pyfloat \<Rightarrow> pyfloat" where
  "fillna0 v = (case v of NaN \<Rightarrow> Fin 0 | Fin x \<Rightarrow> Fin x)"

definition fillna_std :: "agg_row list \<Rightarrow> agg_row list" where
  "fillna_std rows = map (\<lambda>r. r\<lparr>std_col := fillna0 (std_col r)\<rparr>) rows"

text \<open>Chart 5: mean and standard deviation of \<^verbatim>\<open>height_in\<close> by position.\<close>

definition height_groups :: "table \<Rightarrow> (string \<times> real list) list" where
  "height_groups df_players =
     groupby (dropna_subset (\<lambda>r. notna_value (height_to_inches (height r))) df_players)"

definition height_by_pos :: "table \<Rightarrow> agg_row list" where
  "height_by_pos df_players =
     fillna_std (sort_values_mean_desc (agg_mean_std (height_groups df_players)))"

text \<open>
  Chart 6: the same for \<^verbatim>\<open>weight\<close>. The column was coerced by
  \<^verbatim>\<open>pd.to_numeric(..., errors="coerce")\<close>, a library function that is taken here as the
  parameter \<open>to_numeric\<close>: it gives each cell a number or NaN.
\<close>

definition weight_groups :: "(pyval \<Rightarrow> pyfloat) \<Rightarrow> table \<Rightarrow> (string \<times> real list) list" where
  "weight_groups to_numeric df_players =
     groupby (dropna_subset
       (\<lambda>r. case to_numeric (weight r) of Fin x \<Rightarrow> Some x | NaN \<Rightarrow> None) df_players)"

definition weight_by_pos :: "(pyval \<Rightarrow> pyfloat) \<Rightarrow> table \<Rightarrow> agg_row list" where
  "weight_by_pos to_numeric df_players =
     fillna_std (sort_values_mean_desc (agg_mean_std (weight_groups to_numeric df_players)))"

text \<open>The tables of the examples below.\<close>

definition three_players :: table where
  "three_players =
     [\<lparr>height = PyStr ''6-6'', weight = PyStr ''200'', position = Some ''G''\<rparr>,
      \<lparr>height = PyStr ''7-0'', weight = PyStr ''250'', position = Some ''C''\<rparr>,
      \<lparr>height = PyStr ''6-9'', weight = PyStr ''220'', position = Some ''F''\<rparr>]"

text \<open>The member count of each group, as \<^verbatim>\<open>.size()\<close> on the grouping reports it.\<close>

definition group_counts :: "(string \<times> real list) list \<Rightarrow> (string \<times> nat) list" where
  "group_counts groups = map (\<lambda>(k, vs). (k, length vs)) groups"


text \<open>The order of an aggregate by its means: strictly descending, and descending.\<close>

definition strictly_descending_by_mean :: "agg_row list \<Rightarrow> bool" where
  "strictly_descending_by_mean rows = sorted_wrt (>) (map (\<lambda>r. fin_value (mean_col r)) rows)"

definition descending_by_mean :: "agg_row list \<Rightarrow> bool" where
  "descending_by_mean rows = sorted_wrt (\<ge>) (map (\<lambda>r. fin_value (mean_col r)) rows)"


text \<open>Two positions of one player each, both players of the same height.\<close>

definition tied_players :: table where
  "tied_players =
     [\<lparr>height = PyStr ''6-6'', weight = PyInt 200, position = Some ''G''\<rparr>,
      \<lparr>height = PyStr ''6-6'', weight = PyInt 250, position = Some ''C''\<rparr>]"

text \<open>A player whose position cell is empty.\<close>

definition no_position :: table where
  "no_position = [\<lparr>height = PyStr ''6-6'', weight = PyInt 200, position = None\<rparr>]"

text \<open>A coercion of the weights of \<open>three_players\<close>, for the examples.\<close>

definition example_to_numeric :: "pyval \<Rightarrow> pyfloat" where
  "example_to_numeric v =
     (if v = PyStr ''200'' then Fin 200 else if v = PyStr ''250'' then Fin 250
      else if v = PyStr ''220'' then Fin 220 else NaN)"

section \<open>Facts about splitting and parsing\<close>

lemma py_split_nonempty: "py_split sep s \<noteq> []"
  by (induction s) (auto split: list.splits)



lemma length_py_split: "length (py_split sep s) = Suc (count_list s sep)"
  by (induction s) (auto split: list.splits simp: py_split_nonempty)





















section \<open>The normalizer on each kind of input\<close>

lemma neither_is_str: "\<not> isna h \<Longrightarrow> \<not> is_number h \<Longrightarrow> \<exists>s. h = PyStr s"
  by (cases h) (auto simp: isna_def is_number_def)

lemma height_to_inches_str:
  "height_to_inches (PyStr s) =
     (if CHR ''-'' \<notin> set s then PyNone
      else (case feet_inches s of Inl e \<Rightarrow> PyNone | Inr v \<Rightarrow> PyInt v))"
  by (simp add: height_to_inches_def isna_def is_number_def)

lemma height_to_inches_simps:
  "height_to_inches PyNone = PyNone"
  "height_to_inches (PyInt n) = PyInt n"
  "height_to_inches (PyFloat NaN) = PyNone"
  "height_to_inches (PyFloat (Fin x)) = PyFloat (Fin x)"
  by (simp_all add: height_to_inches_def isna_def is_number_def)

lemma py_int_empty: "py_int [] = Inl ValueError"
  by (simp add: py_int_def strip_def)

lemma unpack2_not2: "length ps \<noteq> 2 \<Longrightarrow> unpack2 ps = Inl ValueError"
  by (cases ps rule: unpack2.cases) auto

lemma exn_is_ValueError: "(e :: exn) = ValueError"
  by (cases e) simp

lemmas eval_defs = height_to_inches_def isna_def is_number_def feet_inches_def py_int_def
  strip_def is_space_def parse_digits_def digits_ok_def digits_value_def is_digit_def digit_val_def

text \<open>
  C1. Whatever the raw height is (absent, a number or any string), \<open>height_to_inches\<close> returns
  the missing marker or a number and raises nothing: an absent input, a string without the
  separator (\<^verbatim>\<open>"N/A"\<close>), and a string whose two parts do not parse as integers
  (\<^verbatim>\<open>"abc-def"\<close>) all give missing. Every raise of the \<^verbatim>\<open>try\<close> body ends as missing,
  and an integer result, zero included, is only ever the value the body computed.
\<close>

theorem height_to_inches_missing_not_raised:
  "(height_to_inches h = PyNone \<or> (\<exists>n. height_to_inches h = PyInt n)
      \<or> (\<exists>x. height_to_inches h = PyFloat (Fin x)))
   \<and> (isna h \<longrightarrow> height_to_inches h = PyNone)
   \<and> (CHR ''-'' \<notin> set s1 \<longrightarrow> height_to_inches (PyStr s1) = PyNone)
   \<and> (py_split CHR ''-'' s2 = [a, b] \<and> (py_int a = Inl ValueError \<or> py_int b = Inl ValueError)
        \<longrightarrow> height_to_inches (PyStr s2) = PyNone)
   \<and> (feet_inches s3 = Inl e \<longrightarrow> height_to_inches (PyStr s3) = PyNone)
   \<and> (height_to_inches (PyStr s4) = PyInt n \<longrightarrow> CHR ''-'' \<in> set s4 \<and> feet_inches s4 = Inr n)"
proof (intro conjI impI)
  show "height_to_inches h = PyNone \<or> (\<exists>n. height_to_inches h = PyInt n)
      \<or> (\<exists>x. height_to_inches h = PyFloat (Fin x))"
  proof (cases h)
    case (PyFloat f)
    then show ?thesis by (cases f) (simp_all add: height_to_inches_simps)
  next
    case (PyStr s)
    then show ?thesis by (simp add: height_to_inches_str split: sum.splits)
  qed (simp_all add: height_to_inches_simps)
next
  assume "isna h"
  then show "height_to_inches h = PyNone" by (simp add: height_to_inches_def)
next
  assume "CHR ''-'' \<notin> set s1"
  then show "height_to_inches (PyStr s1) = PyNone" by (simp add: height_to_inches_str)
next
  assume "py_split CHR ''-'' s2 = [a, b] \<and> (py_int a = Inl ValueError \<or> py_int b = Inl ValueError)"
  then have "feet_inches s2 = Inl ValueError"
    by (auto simp: feet_inches_def exn_is_ValueError split: sum.splits)
  then show "height_to_inches (PyStr s2) = PyNone" by (simp add: height_to_inches_str)
next
  assume "feet_inches s3 = Inl e"
  then show "height_to_inches (PyStr s3) = PyNone" by (simp add: height_to_inches_str)
next
  assume "height_to_inches (PyStr s4) = PyInt n"
  then show "CHR ''-'' \<in> set s4" by (simp add: height_to_inches_str split: if_splits)
next
  assume "height_to_inches (PyStr s4) = PyInt n"
  then show "feet_inches s4 = Inr n"
    by (simp add: height_to_inches_str split: if_splits sum.splits)
qed

theorem height_to_inches_missing_not_raised_witness:
  "height_to_inches PyNone = PyNone
   \<and> height_to_inches (PyStr ''N/A'') = PyNone
   \<and> height_to_inches (PyStr ''abc-def'') = PyNone
   \<and> CHR ''-'' \<in> set ''0-0'' \<and> feet_inches ''0-0'' = Inr 0"
proof -
  note t = height_to_inches_missing_not_raised
    [of PyNone "''N/A''" "''abc-def''" "''abc''" "''def''" "''abc-def''" ValueError "''0-0''" 0]
  have 1: "isna PyNone" by (simp add: isna_def)
  have 2: "CHR ''-'' \<notin> set ''N/A''" by simp
  have 3: "py_split CHR ''-'' ''abc-def'' = [''abc'', ''def'']" by simp
  have 4: "py_int ''abc'' = Inl ValueError" by (simp add: eval_defs)
  have 5: "feet_inches ''abc-def'' = Inl ValueError" by (simp add: eval_defs)
  have 6: "height_to_inches (PyStr ''0-0'') = PyInt 0" by (simp add: eval_defs)
  from t 1 2 3 4 5 6 show ?thesis by blast
qed



text \<open>
  C8 as stated fails at the float NaN: it is a numeric input and it is not returned
  unchanged.
\<close>

theorem height_to_inches_nan_changed:
  "is_number (PyFloat NaN) \<and> height_to_inches (PyFloat NaN) \<noteq> PyFloat NaN"
  by (simp add: height_to_inches_def isna_def is_number_def)

text \<open>
  C8, amended. Every numeric input other than NaN is returned unchanged, NaN is turned into
  the missing marker, and the normalizer is idempotent on every input: applying it to one of
  its own results changes nothing. (It is a function of its argument alone.)
\<close>

theorem height_to_inches_numeric_idempotent:
  "(is_number x \<and> \<not> isna x \<longrightarrow> height_to_inches x = x)
   \<and> (is_number x \<and> isna x \<longrightarrow> height_to_inches x = PyNone)
   \<and> height_to_inches (height_to_inches h) = height_to_inches h"
proof (intro conjI impI)
  assume "is_number x \<and> \<not> isna x"
  then show "height_to_inches x = x" by (simp add: height_to_inches_def)
next
  assume "is_number x \<and> isna x"
  then show "height_to_inches x = PyNone" by (simp add: height_to_inches_def)
next
  show "height_to_inches (height_to_inches h) = height_to_inches h"
  proof (cases h)
    case (PyFloat f)
    then show ?thesis by (cases f) (simp_all add: height_to_inches_simps)
  next
    case (PyStr s)
    then show ?thesis
      by (simp add: height_to_inches_str height_to_inches_simps split: sum.splits)
  qed (simp_all add: height_to_inches_simps)
qed

theorem height_to_inches_numeric_idempotent_witness:
  "height_to_inches (PyInt 78) = PyInt 78
   \<and> height_to_inches (PyFloat NaN) = PyNone
   \<and> height_to_inches (height_to_inches (PyStr ''6-6'')) = height_to_inches (PyStr ''6-6'')"
proof -
  have 1: "is_number (PyInt 78) \<and> \<not> isna (PyInt 78)" by (simp add: is_number_def isna_def)
  have 2: "is_number (PyFloat NaN) \<and> isna (PyFloat NaN)" by (simp add: is_number_def isna_def)
  from height_to_inches_numeric_idempotent [of "PyInt 78" "PyStr ''6-6''"]
    height_to_inches_numeric_idempotent [of "PyFloat NaN" "PyStr ''6-6''"] 1 2
  show ?thesis by blast
qed

text \<open>
  C9. The float NaN is numeric, yet the absence test comes first: NaN is classified as absent
  and the result is the missing marker, not NaN itself.
\<close>

theorem height_to_inches_nan_is_missing:
  "is_number (PyFloat NaN) \<and> isna (PyFloat NaN)
   \<and> height_to_inches (PyFloat NaN) = PyNone"
  by (simp add: height_to_inches_def isna_def is_number_def)

text \<open>
  C10. A string that contains the separator but does not split into exactly two parts
  (\<^verbatim>\<open>"6-6-6"\<close>), or that has an empty part (\<^verbatim>\<open>"-6"\<close>), makes the \<^verbatim>\<open>try\<close> body raise
  ValueError, and the function returns the missing marker.
\<close>

theorem height_to_inches_bad_parts:
  "CHR ''-'' \<in> set s \<Longrightarrow>
   length (py_split CHR ''-'' s) \<noteq> 2 \<or> [] \<in> set (py_split CHR ''-'' s) \<Longrightarrow>
   feet_inches s = Inl ValueError \<and> height_to_inches (PyStr s) = PyNone"
proof -
  assume bad: "length (py_split CHR ''-'' s) \<noteq> 2 \<or> [] \<in> set (py_split CHR ''-'' s)"
  have "feet_inches s = Inl ValueError"
  proof (cases "length (py_split CHR ''-'' s) = 2")
    case False
    then show ?thesis by (simp add: feet_inches_def unpack2_not2)
  next
    case True
    then obtain a b where ab: "py_split CHR ''-'' s = [a, b]"
      by (cases "py_split CHR ''-'' s" rule: unpack2.cases) auto
    with bad have "a = [] \<or> b = []" by auto
    then show ?thesis
      by (auto simp: feet_inches_def ab py_int_empty exn_is_ValueError split: sum.splits)
  qed
  then show ?thesis by (simp add: height_to_inches_str)
qed

theorem height_to_inches_bad_parts_witness:
  "height_to_inches (PyStr ''6-6-6'') = PyNone \<and> height_to_inches (PyStr ''-6'') = PyNone
   \<and> length (py_split CHR ''-'' ''6-6-6'') = 3 \<and> py_split CHR ''-'' ''-6'' = [[], ''6'']"
proof -
  have a: "CHR ''-'' \<in> set ''6-6-6''" by simp
  have b: "length (py_split CHR ''-'' ''6-6-6'') \<noteq> 2 \<or> [] \<in> set (py_split CHR ''-'' ''6-6-6'')"
    by simp
  have c: "CHR ''-'' \<in> set ''-6''" by simp
  have d: "length (py_split CHR ''-'' ''-6'') \<noteq> 2 \<or> [] \<in> set (py_split CHR ''-'' ''-6'')"
    by simp
  from height_to_inches_bad_parts [OF a b] height_to_inches_bad_parts [OF c d]
  show ?thesis by simp
qed

section \<open>Facts about the pipeline\<close>

lemma height_to_inches_not_str: "height_to_inches h \<noteq> PyStr s"
proof (cases h)
  case (PyFloat f)
  then show ?thesis by (cases f) (simp_all add: height_to_inches_simps)
next
  case (PyStr t)
  then show ?thesis by (simp add: height_to_inches_str split: sum.splits)
qed (simp_all add: height_to_inches_simps)

lemma notna_value_None: "notna_value v = None \<longleftrightarrow> isna v \<or> (\<exists>s. v = PyStr s)"
  by (auto simp: notna_value_def isna_def split: pyval.splits pyfloat.splits)

lemma notna_value_height: "notna_value (height_to_inches h) = None \<longleftrightarrow> isna (height_to_inches h)"
  by (simp add: notna_value_None height_to_inches_not_str)

lemma notna_value_height_Some:
  "(\<exists>y. notna_value (height_to_inches h) = Some y) \<longleftrightarrow> \<not> isna (height_to_inches h)"
  using notna_value_height [of h] by (cases "notna_value (height_to_inches h)") auto

lemma length_heights:
  "length (heights df) = length (filter (\<lambda>r. \<not> isna (height_to_inches (height r))) df)"
  by (simp add: heights_def height_in_def map_filter_def filter_map o_def notna_value_height_Some)

lemma length_heights_height_in:
  "length (heights df) = length (filter (\<lambda>v. \<not> isna v) (height_in df))"
  by (simp add: length_heights height_in_def filter_map o_def)

lemma length_group_values:
  "length (group_values k rows) = count_list (List.map_filter fst rows) k"
  by (induction rows) (auto simp: group_values_def map_filter_simps split: option.splits)

lemma sum_group_sizes:
  "sum_list (map (\<lambda>(k, vs). length vs) (groupby rows)) = length (filter (\<lambda>r. fst r \<noteq> None) rows)"
proof -
  let ?ks = "List.map_filter fst rows"
  have "sum_list (map (\<lambda>(k, vs). length vs) (groupby rows))
      = sum_list (map (count_list ?ks) (sort (remdups ?ks)))"
    by (simp add: groupby_def group_keys_def o_def length_group_values)
  also have "\<dots> = sum (count_list ?ks) (set (sort (remdups ?ks)))"
    by (rule sum_list_distinct_conv_sum_set) simp
  also have "\<dots> = sum (count_list ?ks) (set ?ks)"
    by simp
  also have "\<dots> = length ?ks"
    by (rule sum_count_set) auto
  also have "\<dots> = length (filter (\<lambda>r. fst r \<noteq> None) rows)"
    by (simp add: map_filter_def)
  finally show ?thesis .
qed

lemma filter_dropna_subset:
  "length (filter (\<lambda>r. fst r \<noteq> None) (dropna_subset col df))
     = length (filter (\<lambda>r. position r \<noteq> None \<and> col r \<noteq> None) df)"
  by (induction df) (auto simp: dropna_subset_def map_filter_simps split: option.splits)

lemma groupby_member:
  "(k, vs) \<in> set (groupby rows) \<Longrightarrow> vs = group_values k rows \<and> vs \<noteq> []"
proof -
  assume "(k, vs) \<in> set (groupby rows)"
  then have vs: "vs = group_values k rows" and k: "k \<in> set (List.map_filter fst rows)"
    by (auto simp: groupby_def group_keys_def)
  from k obtain r where "r \<in> set rows" "fst r = Some k"
    by (auto simp: map_filter_def)
  then have "filter (\<lambda>r. fst r = Some k) rows \<noteq> []"
    by (auto simp: filter_empty_conv)
  with vs show ?thesis by (simp add: group_values_def)
qed

lemma distinct_groupby: "distinct (map fst (groupby rows))"
  by (simp add: groupby_def group_keys_def o_def)

lemma mean_not_NaN: "vs \<noteq> [] \<Longrightarrow> mean vs \<noteq> NaN"
  by (simp add: mean_def)

lemma set_sort_values: "set (sort_values_mean_desc rows) = set rows"
  by (auto simp: sort_values_mean_desc_def)

lemma set_by_pos:
  "set (fillna_std (sort_values_mean_desc (agg_mean_std gs)))
     = (\<lambda>(k, vs). \<lparr>pos = k, mean_col = mean vs, std_col = fillna0 (std vs)\<rparr>) ` set gs"
  by (force simp: fillna_std_def set_sort_values agg_mean_std_def image_iff)

lemma sorted_desc_rev_sort_key: "sorted_wrt (\<lambda>a b. f b \<le> f a) (rev (sort_key f xs))"
proof -
  have "sorted (map f (sort_key f xs))" by (rule sorted_sort_key)
  then have "sorted_wrt (\<lambda>a b. f a \<le> f b) (sort_key f xs)" by (simp add: sorted_map)
  then show ?thesis by (simp add: sorted_wrt_rev)
qed

lemma sort_values_no_NaN:
  "\<forall>r \<in> set rows. mean_col r \<noteq> NaN \<Longrightarrow>
   sort_values_mean_desc rows = rev (sort_key (\<lambda>r. fin_value (mean_col r)) (rev rows))"
  by (simp add: sort_values_mean_desc_def filter_id_conv filter_empty_conv)

lemma agg_no_NaN:
  "\<forall>g \<in> set gs. snd g \<noteq> [] \<Longrightarrow> \<forall>r \<in> set (agg_mean_std gs). mean_col r \<noteq> NaN"
  by (auto simp: agg_mean_std_def mean_not_NaN)

lemma sorted_by_pos:
  assumes "\<forall>g \<in> set gs. snd g \<noteq> []"
  shows "sorted_wrt (\<lambda>a b. fin_value (mean_col b) \<le> fin_value (mean_col a))
           (fillna_std (sort_values_mean_desc (agg_mean_std gs)))"
proof -
  let ?f = "\<lambda>r. fin_value (mean_col r)"
  have "sorted_wrt (\<lambda>a b. ?f b \<le> ?f a) (sort_values_mean_desc (agg_mean_std gs))"
    by (simp only: sort_values_no_NaN [OF agg_no_NaN [OF assms]] sorted_desc_rev_sort_key)
  then show ?thesis
    by (simp add: fillna_std_def sorted_wrt_map)
qed

lemma std_singleton: "fillna0 (std [v]) = Fin 0"
  by (simp add: std_def fillna0_def)

lemma mean_singleton: "mean [v] = Fin v"
  by (simp add: mean_def)

lemma single_group_record:
  assumes "(k, [v]) \<in> set (groupby rows)"
  shows "\<lparr>pos = k, mean_col = Fin v, std_col = Fin 0\<rparr>
           \<in> set (fillna_std (sort_values_mean_desc (agg_mean_std (groupby rows))))"
    and "r \<in> set (fillna_std (sort_values_mean_desc (agg_mean_std (groupby rows)))) \<Longrightarrow>
         pos r = k \<Longrightarrow> std_col r = Fin 0 \<and> mean_col r = Fin v"
proof -
  show "\<lparr>pos = k, mean_col = Fin v, std_col = Fin 0\<rparr>
           \<in> set (fillna_std (sort_values_mean_desc (agg_mean_std (groupby rows))))"
    unfolding set_by_pos using assms by (force simp: std_singleton mean_singleton)
next
  assume "r \<in> set (fillna_std (sort_values_mean_desc (agg_mean_std (groupby rows))))"
    and k: "pos r = k"
  then obtain k' vs where g: "(k', vs) \<in> set (groupby rows)"
    and r: "r = \<lparr>pos = k', mean_col = mean vs, std_col = fillna0 (std vs)\<rparr>"
    unfolding set_by_pos by auto
  from r k have "k' = k" by simp
  with g groupby_member [OF assms] groupby_member [of k vs rows] have "vs = [v]" by simp
  with r show "std_col r = Fin 0 \<and> mean_col r = Fin v"
    by (simp add: std_singleton mean_singleton)
qed

lemmas pipeline_defs = heights_def height_in_def notna_value_def map_filter_simps
  height_groups_def weight_groups_def groupby_def group_keys_def group_values_def
  dropna_subset_def

lemmas by_pos_defs = height_by_pos_def weight_by_pos_def agg_mean_std_def mean_def std_def
  sort_values_mean_desc_def fin_value_def fillna_std_def fillna0_def

section \<open>The pipeline on the tables of the specification\<close>

lemma heights_three_players: "heights three_players = [78, 84, 81]"
  by (simp add: three_players_def pipeline_defs eval_defs)

lemma height_groups_three_players:
  "height_groups three_players = [(''C'', [84]), (''F'', [81]), (''G'', [78])]"
  by (simp add: three_players_def pipeline_defs eval_defs)

lemma height_groups_tied_players:
  "height_groups tied_players = [(''C'', [78]), (''G'', [78])]"
  by (simp add: tied_players_def pipeline_defs eval_defs)


lemma sum_group_counts:
  "sum_list (map snd (group_counts gs)) = sum_list (map (\<lambda>(k, vs). length vs) gs)"
  by (simp add: group_counts_def o_def case_prod_unfold)

text \<open>
  C3 as stated fails in one figure: the mean of the three heights 78, 84 and 81 is not 79.
\<close>

theorem three_players_mean_not_79: "mean (heights three_players) \<noteq> Fin 79"
  by (simp add: heights_three_players mean_def)

text \<open>
  C3, amended. For the table of three players (\<^verbatim>\<open>"6-6"\<close> G, \<^verbatim>\<open>"7-0"\<close> C, \<^verbatim>\<open>"6-9"\<close> F)
  the summary of the heights has mean 81, minimum 78 and maximum 84; the grouping by position
  has the three groups G, C and F of one player each, with means 78, 84 and 81, and the
  aggregate lists them as C: 84, F: 81, G: 78, each with standard deviation 0.
\<close>

theorem three_players_summary:
  "mean (heights three_players) = Fin 81
   \<and> min_series (heights three_players) = Fin 78
   \<and> max_series (heights three_players) = Fin 84
   \<and> height_groups three_players = [(''C'', [84]), (''F'', [81]), (''G'', [78])]
   \<and> height_by_pos three_players =
       [\<lparr>pos = ''C'', mean_col = Fin 84, std_col = Fin 0\<rparr>,
        \<lparr>pos = ''F'', mean_col = Fin 81, std_col = Fin 0\<rparr>,
        \<lparr>pos = ''G'', mean_col = Fin 78, std_col = Fin 0\<rparr>]"
proof (intro conjI)
  show "mean (heights three_players) = Fin 81"
    by (simp add: heights_three_players mean_def)
  show "min_series (heights three_players) = Fin 78"
    by (simp add: heights_three_players min_series_def)
  show "max_series (heights three_players) = Fin 84"
    by (simp add: heights_three_players max_series_def)
  show "height_groups three_players = [(''C'', [84]), (''F'', [81]), (''G'', [78])]"
    by (rule height_groups_three_players)
  show "height_by_pos three_players =
       [\<lparr>pos = ''C'', mean_col = Fin 84, std_col = Fin 0\<rparr>,
        \<lparr>pos = ''F'', mean_col = Fin 81, std_col = Fin 0\<rparr>,
        \<lparr>pos = ''G'', mean_col = Fin 78, std_col = Fin 0\<rparr>]"
    by (simp add: by_pos_defs height_groups_three_players)
qed




text \<open>
  C5. In the aggregate by position of the heights and in that of the weights, a group with
  exactly one contributing member has a record, and the standard deviation of that record
  is 0; no record of either aggregate is left with a missing standard deviation.
\<close>

theorem single_member_std_zero:
  "((k, [v]) \<in> set (height_groups df) \<longrightarrow>
      \<lparr>pos = k, mean_col = Fin v, std_col = Fin 0\<rparr> \<in> set (height_by_pos df)
      \<and> (\<forall>r \<in> set (height_by_pos df). pos r = k \<longrightarrow> std_col r = Fin 0))
   \<and> ((k', [v']) \<in> set (weight_groups to_numeric df) \<longrightarrow>
      \<lparr>pos = k', mean_col = Fin v', std_col = Fin 0\<rparr> \<in> set (weight_by_pos to_numeric df)
      \<and> (\<forall>r \<in> set (weight_by_pos to_numeric df). pos r = k' \<longrightarrow> std_col r = Fin 0))
   \<and> (\<forall>r \<in> set (height_by_pos df). std_col r \<noteq> NaN)
   \<and> (\<forall>r \<in> set (weight_by_pos to_numeric df). std_col r \<noteq> NaN)"
proof (intro conjI impI ballI)
  assume g: "(k, [v]) \<in> set (height_groups df)"
  then show "\<lparr>pos = k, mean_col = Fin v, std_col = Fin 0\<rparr> \<in> set (height_by_pos df)"
    unfolding height_groups_def height_by_pos_def by (rule single_group_record(1))
next
  fix r
  assume "(k, [v]) \<in> set (height_groups df)" "r \<in> set (height_by_pos df)" "pos r = k"
  then show "std_col r = Fin 0"
    unfolding height_groups_def height_by_pos_def by (auto dest: single_group_record(2))
next
  assume "(k', [v']) \<in> set (weight_groups to_numeric df)"
  then show "\<lparr>pos = k', mean_col = Fin v', std_col = Fin 0\<rparr> \<in> set (weight_by_pos to_numeric df)"
    unfolding weight_groups_def weight_by_pos_def by (rule single_group_record(1))
next
  fix r
  assume "(k', [v']) \<in> set (weight_groups to_numeric df)"
    "r \<in> set (weight_by_pos to_numeric df)" "pos r = k'"
  then show "std_col r = Fin 0"
    unfolding weight_groups_def weight_by_pos_def by (auto dest: single_group_record(2))
next
  fix r
  assume "r \<in> set (height_by_pos df)"
  then show "std_col r \<noteq> NaN"
    unfolding height_by_pos_def set_by_pos by (auto simp: fillna0_def split: pyfloat.splits)
next
  fix r
  assume "r \<in> set (weight_by_pos to_numeric df)"
  then show "std_col r \<noteq> NaN"
    unfolding weight_by_pos_def set_by_pos by (auto simp: fillna0_def split: pyfloat.splits)
qed

theorem single_member_std_zero_witness:
  "(''C'', [84]) \<in> set (height_groups three_players)
   \<and> \<lparr>pos = ''C'', mean_col = Fin 84, std_col = Fin 0\<rparr> \<in> set (height_by_pos three_players)
   \<and> (''C'', [250]) \<in> set (weight_groups example_to_numeric three_players)
   \<and> \<lparr>pos = ''C'', mean_col = Fin 250, std_col = Fin 0\<rparr>
        \<in> set (weight_by_pos example_to_numeric three_players)"
proof -
  have h: "(''C'', [84]) \<in> set (height_groups three_players)"
    by (simp add: height_groups_three_players)
  have "weight_groups example_to_numeric three_players
      = [(''C'', [250]), (''F'', [220]), (''G'', [200])]"
    by (simp add: three_players_def pipeline_defs example_to_numeric_def)
  then have w: "(''C'', [250]) \<in> set (weight_groups example_to_numeric three_players)"
    by simp
  from single_member_std_zero [of "''C''" 84 three_players "''C''" 250 example_to_numeric] h w
  show ?thesis by blast
qed

text \<open>
  C6 as stated fails when two groups have the same mean: with one G and one C of the same
  height the means are 78 and 78, which is not strictly descending, and the aggregate lists
  C before G although G comes first in the table.
\<close>

theorem tied_players_not_strict_not_first_seen:
  "map position tied_players = [Some ''G'', Some ''C'']
   \<and> map pos (height_by_pos tied_players) = [''C'', ''G'']
   \<and> map mean_col (height_by_pos tied_players) = [Fin 78, Fin 78]
   \<and> \<not> strictly_descending_by_mean (height_by_pos tied_players)"
proof -
  have "height_by_pos tied_players =
      [\<lparr>pos = ''C'', mean_col = Fin 78, std_col = Fin 0\<rparr>,
       \<lparr>pos = ''G'', mean_col = Fin 78, std_col = Fin 0\<rparr>]"
    by (simp add: by_pos_defs height_groups_tied_players)
  then show ?thesis
    by (simp add: strictly_descending_by_mean_def fin_value_def tied_players_def)
qed

text \<open>
  C6, amended. For every table the aggregate of the mean height by position has one record
  for each position that has a player with a height, every mean is a number, and the
  records are in descending order of mean, equal means allowed. Which of two groups of
  equal mean comes first is left to the sort of the table library and is not promised.
\<close>

theorem height_by_pos_descending:
  "descending_by_mean (height_by_pos df)
   \<and> (\<forall>r \<in> set (height_by_pos df). mean_col r \<noteq> NaN)
   \<and> distinct (map pos (height_by_pos df))
   \<and> set (map pos (height_by_pos df)) = set (map fst (height_groups df))
   \<and> length (height_by_pos df) = length (height_groups df)"
proof (intro conjI ballI)
  let ?gs = "height_groups df"
  have ne: "\<forall>g \<in> set ?gs. snd g \<noteq> []"
    unfolding height_groups_def by (auto dest: groupby_member)
  have "sorted_wrt (\<lambda>a b. fin_value (mean_col b) \<le> fin_value (mean_col a)) (height_by_pos df)"
    unfolding height_by_pos_def by (rule sorted_by_pos [OF ne])
  then show "descending_by_mean (height_by_pos df)"
    by (simp add: descending_by_mean_def sorted_wrt_map)
  have nn: "\<forall>r \<in> set (agg_mean_std ?gs). mean_col r \<noteq> NaN"
    by (rule agg_no_NaN [OF ne])
  have sv: "sort_values_mean_desc (agg_mean_std ?gs)
      = rev (sort_key (\<lambda>r. fin_value (mean_col r)) (rev (agg_mean_std ?gs)))"
    by (rule sort_values_no_NaN [OF nn])
  have pos_agg: "map pos (agg_mean_std ?gs) = map fst ?gs"
    by (simp add: agg_mean_std_def case_prod_unfold)
  have pos_fill: "map pos (height_by_pos df) = map pos (sort_values_mean_desc (agg_mean_std ?gs))"
    by (simp add: height_by_pos_def fillna_std_def o_def)
  have "mset (sort_values_mean_desc (agg_mean_std ?gs)) = mset (agg_mean_std ?gs)"
    unfolding sv by simp
  then have "image_mset pos (mset (sort_values_mean_desc (agg_mean_std ?gs)))
      = image_mset pos (mset (agg_mean_std ?gs))"
    by (rule arg_cong)
  then have ms: "mset (map pos (height_by_pos df)) = mset (map fst ?gs)"
    unfolding pos_fill pos_agg [symmetric] by (simp only: mset_map)
  have d: "distinct (map fst ?gs)"
    unfolding height_groups_def by (rule distinct_groupby)
  from mset_eq_imp_distinct_iff [OF ms] d show "distinct (map pos (height_by_pos df))"
    by blast
  from ms show "set (map pos (height_by_pos df)) = set (map fst (height_groups df))"
    by (rule mset_eq_setD)
  from mset_eq_length [OF ms] show "length (height_by_pos df) = length (height_groups df)"
    by simp
  fix r
  assume "r \<in> set (height_by_pos df)"
  then show "mean_col r \<noteq> NaN"
    unfolding height_by_pos_def set_by_pos using ne by (auto simp: mean_not_NaN)
qed

theorem height_by_pos_descending_witness:
  "descending_by_mean (height_by_pos tied_players)
   \<and> map mean_col (height_by_pos tied_players) = [Fin 78, Fin 78]
   \<and> descending_by_mean (height_by_pos three_players)
   \<and> length (height_by_pos three_players) = 3"
proof -
  have t: "height_by_pos tied_players =
      [\<lparr>pos = ''C'', mean_col = Fin 78, std_col = Fin 0\<rparr>,
       \<lparr>pos = ''G'', mean_col = Fin 78, std_col = Fin 0\<rparr>]"
    by (simp add: by_pos_defs height_groups_tied_players)
  from height_by_pos_descending [of tied_players] height_by_pos_descending [of three_players]
  show ?thesis by (simp add: t height_groups_three_players)
qed

text \<open>
  C7 as stated fails on a row with a height and no position: it belongs to no group, so the
  counts of the groups sum to 0 while one value of \<^verbatim>\<open>height_in\<close> is present.
\<close>

theorem no_position_counts_differ:
  "sum_list (map snd (group_counts (height_groups no_position))) = 0
   \<and> length (heights no_position) = 1"
  by (simp add: no_position_def group_counts_def pipeline_defs eval_defs)

text \<open>
  C7, amended. The member counts of the grouping of the heights by position sum to the number
  of rows that have both a height value and a position; when every row has a position, that
  is the number of non-missing values of \<^verbatim>\<open>height_in\<close> in the whole table.
\<close>

theorem group_counts_sum:
  "sum_list (map snd (group_counts (height_groups df)))
     = length (filter (\<lambda>r. position r \<noteq> None \<and> \<not> isna (height_to_inches (height r))) df)
   \<and> length (heights df) = length (filter (\<lambda>v. \<not> isna v) (height_in df))
   \<and> ((\<forall>r \<in> set df. position r \<noteq> None) \<longrightarrow>
        sum_list (map snd (group_counts (height_groups df))) = length (heights df))"
proof -
  let ?col = "\<lambda>r. notna_value (height_to_inches (height r))"
  have "sum_list (map snd (group_counts (height_groups df)))
     = length (filter (\<lambda>r. fst r \<noteq> None) (dropna_subset ?col df))"
    by (simp only: sum_group_counts height_groups_def sum_group_sizes)
  also have "\<dots> = length (filter (\<lambda>r. position r \<noteq> None \<and> ?col r \<noteq> None) df)"
    by (rule filter_dropna_subset)
  also have "\<dots>
     = length (filter (\<lambda>r. position r \<noteq> None \<and> \<not> isna (height_to_inches (height r))) df)"
    by (simp only: notna_value_height)
  finally have a: "sum_list (map snd (group_counts (height_groups df)))
     = length (filter (\<lambda>r. position r \<noteq> None \<and> \<not> isna (height_to_inches (height r))) df)" .
  have b: "(\<forall>r \<in> set df. position r \<noteq> None) \<Longrightarrow>
      filter (\<lambda>r. position r \<noteq> None \<and> \<not> isna (height_to_inches (height r))) df
        = filter (\<lambda>r. \<not> isna (height_to_inches (height r))) df"
    by (rule filter_cong) auto
  from a b show ?thesis
    by (auto simp: length_heights length_heights_height_in [symmetric])
qed

theorem group_counts_sum_witness:
  "sum_list (map snd (group_counts (height_groups three_players))) = 3
   \<and> length (heights three_players) = 3
   \<and> sum_list (map snd (group_counts (height_groups no_position))) = 0"
proof -
  have p: "\<forall>r \<in> set three_players. position r \<noteq> None"
    by (simp add: three_players_def)
  have z: "length (filter (\<lambda>r. position r \<noteq> None \<and> \<not> isna (height_to_inches (height r)))
      no_position) = 0"
    by (simp add: no_position_def)
  from group_counts_sum [of three_players] group_counts_sum [of no_position] p z
  show ?thesis by (simp add: heights_three_players)
qed

end
